theory Spec2Isabelle
  imports Complex_Main "HOL-Library.AList"
begin

section \<open>Python values, dictionaries and exceptions\<close>

text \<open>
  The router (\<^verbatim>\<open>anus/models/model_router.py\<close>) and the Gemini adapter
  (\<^verbatim>\<open>anus/models/gemini_model.py\<close>) are embedded function by function.
  Configuration values are Python scalars. Strings are taken over ASCII, where
  \<^verbatim>\<open>str.lower\<close> changes exactly the letters \<^verbatim>\<open>A\<close> to \<^verbatim>\<open>Z\<close>. A float is only ever carried
  around by this code, never computed with.
\<close>

datatype pyval = VNone | VBool bool | VInt int | VFloat real | VStr string

fun type_name :: "pyval \<Rightarrow> string" where
  "type_name VNone = ''NoneType''"
| "type_name (VBool _) = ''bool''"
| "type_name (VInt _) = ''int''"
| "type_name (VFloat _) = ''float''"
| "type_name (VStr _) = ''str''"

text \<open>
  A \<^verbatim>\<open>dict\<close> with string keys is an association list in insertion order:
  \<^verbatim>\<open>d[k] = v\<close> is \<^const>\<open>AList.update\<close> (an existing key keeps its position, a new
  key goes last), \<^verbatim>\<open>k in d\<close> is membership in the keys, \<^verbatim>\<open>d.pop(k, None)\<close> is
  \<^const>\<open>AList.delete\<close>, and a dict is truthy when it is not empty.
\<close>

type_synonym 'v dict = "(string \<times> 'v) list"

definition dict_contains :: "string \<Rightarrow> 'v dict \<Rightarrow> bool" where
  "dict_contains k d = (k \<in> set (map fst d))"

definition dict_get :: "'v dict \<Rightarrow> string \<Rightarrow> 'v \<Rightarrow> 'v" where
  "dict_get d k dflt = (case map_of d k of None \<Rightarrow> dflt | Some v \<Rightarrow> v)"

type_synonym config = "pyval dict"

text \<open>
  An exception is its class name and \<^verbatim>\<open>str(e)\<close>. Only exceptions derived from
  \<^verbatim>\<open>Exception\<close> are modelled: they are what \<^verbatim>\<open>except Exception\<close> catches.
\<close>

datatype exn = Exn (exn_class: string) (exn_str: string)

definition lower_char :: "char \<Rightarrow> char" where
  "lower_char c =
     (case map_of (zip ''ABCDEFGHIJKLMNOPQRSTUVWXYZ'' ''abcdefghijklmnopqrstuvwxyz'') c of
        None \<Rightarrow> c
      | Some l \<Rightarrow> l)"

definition str_lower :: "string \<Rightarrow> string" where
  "str_lower s = map lower_char s"

text \<open>The apostrophe of Python's messages.\<close>

definition squote :: string where
  "squote = [CHR 0x27]"

text \<open>\<^verbatim>\<open>v.lower()\<close>: only a \<^verbatim>\<open>str\<close> has the method.\<close>

fun py_lower :: "pyval \<Rightarrow> exn + string" where
  "py_lower (VStr s) = Inr (str_lower s)"
| "py_lower v =
     Inl (Exn ''AttributeError''
       (squote @ type_name v @ squote @ '' object has no attribute '' @ squote @ ''lower''
          @ squote))"

section \<open>Classes, instances and the router's state\<close>

text \<open>
  A model class is a first-class value: its \<^verbatim>\<open>__name__\<close> and what calling it with
  keyword arguments does. The call runs code outside the router (a provider SDK, the
  network), so it reads and changes an external world \<open>'w\<close>, and either raises or
  yields the new instance's contents \<open>'o\<close>.
\<close>

record ('w, 'o) pyclass =
  cls_name :: string
  cls_call :: "config \<Rightarrow> 'w \<Rightarrow> (exn + 'o) \<times> 'w"

text \<open>
  Instances are references: an instance is its address in \<open>heap\<close>, so two instances
  are the same object exactly when their addresses are equal. The first four fields
  are the attributes of \<^verbatim>\<open>ModelRouter\<close>; \<open>calls\<close> is the trace of the class calls
  made so far (class name and keyword arguments, whether or not the call raised).
\<close>

record ('w, 'o) state =
  models :: "nat dict"
  model_classes :: "('w, 'o) pyclass dict"
  default_model_config :: config
  default_model :: "nat option"
  heap :: "'o list"
  calls :: "(string \<times> config) list"
  world :: 'w

text \<open>\<^verbatim>\<open>model_class(**kwargs)\<close>: a successful call allocates a fresh address.\<close>

definition call_class ::
  "('w, 'o) pyclass \<Rightarrow> config \<Rightarrow> ('w, 'o) state \<Rightarrow> (exn + nat) \<times> ('w, 'o) state" where
  "call_class model_class kwargs s =
     (case cls_call model_class kwargs (world s) of
        (Inl e, w) \<Rightarrow>
          (Inl e, s\<lparr>calls := calls s @ [(cls_name model_class, kwargs)], world := w\<rparr>)
      | (Inr obj, w) \<Rightarrow>
          (Inr (length (heap s)),
           s\<lparr>heap := heap s @ [obj],
             calls := calls s @ [(cls_name model_class, kwargs)], world := w\<rparr>))"

section \<open>ModelRouter\<close>

text \<open>
  \<^verbatim>\<open>OpenAIModel\<close> is imported from a module that is not part of the sources at hand, and
  the router is independent of what \<^verbatim>\<open>GeminiModel\<close> does when called: both classes are
  parameters. Calls to \<^verbatim>\<open>logging\<close> do not touch the router and are left out.
\<close>

definition ModelRouter_init ::
  "('w, 'o) pyclass \<Rightarrow> ('w, 'o) pyclass \<Rightarrow> config option \<Rightarrow> 'o list \<Rightarrow> 'w \<Rightarrow> ('w, 'o) state"
  where
  "ModelRouter_init OpenAIModel GeminiModel cfg h w =
     \<lparr>models = [],
      model_classes = [(''openai'', OpenAIModel), (''gemini'', GeminiModel)],
      default_model_config =
        (case cfg of
           None \<Rightarrow> [(''provider'', VStr ''openai''), (''model_name'', VStr ''gpt-4''),
                    (''temperature'', VFloat 0)]
         | Some c \<Rightarrow>
             if c = [] then [(''provider'', VStr ''openai''), (''model_name'', VStr ''gpt-4''),
                             (''temperature'', VFloat 0)]
             else c),
      default_model = None,
      heap = h, calls = [], world = w\<rparr>"

definition register_model :: "string \<Rightarrow> nat \<Rightarrow> ('w, 'o) state \<Rightarrow> ('w, 'o) state" where
  "register_model name model s = s\<lparr>models := AList.update name model (models s)\<rparr>"

definition register_model_class ::
  "string \<Rightarrow> ('w, 'o) pyclass \<Rightarrow> ('w, 'o) state \<Rightarrow> ('w, 'o) state" where
  "register_model_class provider model_class s =
     s\<lparr>model_classes := AList.update provider model_class (model_classes s)\<rparr>"

text \<open>
  Lines 129 to 134 of \<^verbatim>\<open>_create_model_from_config\<close>: the provider named by the config,
  lower-cased, and replaced by \<^verbatim>\<open>"openai"\<close> when the registry has no such key.
\<close>

definition resolve_provider :: "('w, 'o) state \<Rightarrow> config \<Rightarrow> exn + string" where
  "resolve_provider s config =
     (case py_lower (dict_get config ''provider'' (VStr ''openai'')) of
        Inl e \<Rightarrow> Inl e
      | Inr provider \<Rightarrow>
          if \<not> dict_contains provider (model_classes s) then Inr ''openai''
          else Inr provider)"

text \<open>
  The body of the outer \<^verbatim>\<open>try\<close>: \<^verbatim>\<open>self.model_classes[provider]\<close> raises
  \<^verbatim>\<open>KeyError\<close> on a missing key, then the class is called with the config less its
  \<^verbatim>\<open>provider\<close> entry.
\<close>

definition try_construct ::
  "string \<Rightarrow> config \<Rightarrow> ('w, 'o) state \<Rightarrow> (exn + nat) \<times> ('w, 'o) state" where
  "try_construct provider config s =
     (case map_of (model_classes s) provider of
        None \<Rightarrow> (Inl (Exn ''KeyError'' (squote @ provider @ squote)), s)
      | Some model_class \<Rightarrow> call_class model_class (AList.delete ''provider'' config) s)"

text \<open>
  \<^verbatim>\<open>_create_model_from_config\<close> (an Isabelle name cannot start with an underscore).
  The check of \<^verbatim>\<open>api_key\<close> for \<^verbatim>\<open>gemini\<close> only logs.
\<close>

definition create_model_from_config ::
  "('w, 'o) pyclass \<Rightarrow> config \<Rightarrow> ('w, 'o) state \<Rightarrow> (exn + nat) \<times> ('w, 'o) state" where
  "create_model_from_config OpenAIModel config s =
     (case resolve_provider s config of
        Inl e \<Rightarrow> (Inl e, s)
      | Inr provider \<Rightarrow>
          (case try_construct provider config s of
             (Inr m, s1) \<Rightarrow> (Inr m, s1)
           | (Inl e, s1) \<Rightarrow>
               (case call_class OpenAIModel [(''model_name'', VStr ''gpt-4'')] s1 of
                  (Inr m, s2) \<Rightarrow> (Inr m, s2)
                | (Inl _, s2) \<Rightarrow>
                    (Inl (Exn ''ValueError'' (''Failed to create model: '' @ exn_str e)),
                     s2))))"

definition get_default_model ::
  "('w, 'o) pyclass \<Rightarrow> ('w, 'o) state \<Rightarrow> (exn + nat) \<times> ('w, 'o) state" where
  "get_default_model OpenAIModel s =
     (case default_model s of
        None \<Rightarrow>
          (case create_model_from_config OpenAIModel (default_model_config s) s of
             (Inl e, s1) \<Rightarrow> (Inl e, s1)
           | (Inr m, s1) \<Rightarrow> (Inr m, s1\<lparr>default_model := Some m\<rparr>))
      | Some m \<Rightarrow> (Inr m, s))"

text \<open>The argument of \<^verbatim>\<open>get_model\<close>, by the run-time type the function tests for.\<close>

datatype name_or_config = Str string | Dict config | Other pyval

fun get_model ::
  "('w, 'o) pyclass \<Rightarrow> name_or_config \<Rightarrow> ('w, 'o) state \<Rightarrow> (exn + nat) \<times> ('w, 'o) state"
  where
  "get_model OpenAIModel (Str name) s =
     (case map_of (models s) name of
        Some m \<Rightarrow> (Inr m, s)
      | None \<Rightarrow> get_default_model OpenAIModel s)"
| "get_model OpenAIModel (Dict config) s = create_model_from_config OpenAIModel config s"
| "get_model OpenAIModel (Other v) s = get_default_model OpenAIModel s"

text \<open>
  \<^verbatim>\<open>if requirements:\<close> is false for \<^verbatim>\<open>None\<close> (the default) and for the empty
  dict alike.
\<close>

definition select_model_for_task ::
  "('w, 'o) pyclass \<Rightarrow> string \<Rightarrow> config option \<Rightarrow> ('w, 'o) state
     \<Rightarrow> (exn + nat) \<times> ('w, 'o) state" where
  "select_model_for_task OpenAIModel task requirements s =
     (case requirements of
        None \<Rightarrow> get_default_model OpenAIModel s
      | Some r \<Rightarrow>
          if r \<noteq> [] then create_model_from_config OpenAIModel r s
          else get_default_model OpenAIModel s)"

text \<open>
  A client of the router calls its methods one after another; a call that raises leaves
  the router as the call left it. \<^verbatim>\<open>list_available_models\<close> assigns no attribute
  and calls no class, so it is not among the calls that can change the router.
\<close>

datatype ('w, 'o) call =
    Register_model string nat
  | Register_model_class string "('w, 'o) pyclass"
  | Get_model name_or_config
  | Get_default_model
  | Select_model_for_task string "config option"

fun exec :: "('w, 'o) pyclass \<Rightarrow> ('w, 'o) call \<Rightarrow> ('w, 'o) state \<Rightarrow> ('w, 'o) state" where
  "exec OpenAIModel (Register_model name model) s = register_model name model s"
| "exec OpenAIModel (Register_model_class provider model_class) s =
     register_model_class provider model_class s"
| "exec OpenAIModel (Get_model a) s = snd (get_model OpenAIModel a s)"
| "exec OpenAIModel Get_default_model s = snd (get_default_model OpenAIModel s)"
| "exec OpenAIModel (Select_model_for_task task requirements) s =
     snd (select_model_for_task OpenAIModel task requirements s)"

fun run :: "('w, 'o) pyclass \<Rightarrow> ('w, 'o) call list \<Rightarrow> ('w, 'o) state \<Rightarrow> ('w, 'o) state" where
  "run OpenAIModel [] s = s"
| "run OpenAIModel (c # cs) s = run OpenAIModel cs (exec OpenAIModel c s)"

section \<open>GeminiModel and GeminiChat\<close>

text \<open>
  The Google GenAI SDK is outside the sources: what its objects answer is a parameter.
  A call of the SDK either raises or returns; a response stream is the finite list of
  what its iterator does at each \<^verbatim>\<open>next\<close> (raise, or deliver a chunk) before it is
  exhausted.
\<close>

datatype gen_config = GenerateContentConfig_obj (config_temperature: pyval)

datatype response = Response (response_text: pyval)

datatype chunk = Chunk (chunk_text: pyval)

datatype part = Part (part_text: pyval)

datatype message = Message (role: pyval) (parts: "part list")

record chat_session =
  session_send_message :: "pyval \<Rightarrow> exn + response"
  session_get_history :: "exn + message list"

record 'q client =
  generate_content :: "pyval \<Rightarrow> 'q \<Rightarrow> gen_config \<Rightarrow> exn + response"
  generate_content_stream :: "pyval \<Rightarrow> 'q \<Rightarrow> gen_config \<Rightarrow> exn + (exn + chunk) list"
  chats_create :: "pyval \<Rightarrow> exn + chat_session"

text \<open>The two names the module imports: \<^verbatim>\<open>genai.Client\<close> and \<^verbatim>\<open>types.GenerateContentConfig\<close>.\<close>

record ('w, 'q) genai =
  Client :: "pyval \<Rightarrow> 'w \<Rightarrow> (exn + 'q client) \<times> 'w"
  GenerateContentConfig :: "pyval \<Rightarrow> exn + gen_config"

record 'q GeminiModel =
  model_name :: pyval
  api_key :: pyval
  temperature :: pyval
  client :: "'q client"

text \<open>
  \<^verbatim>\<open>GeminiModel.__init__\<close>: every parameter has a default and \<^verbatim>\<open>**kwargs\<close> takes the
  rest, so binding the arguments cannot fail; the only failure is that of
  \<^verbatim>\<open>genai.Client\<close>, raised again.
\<close>

definition GeminiModel_init ::
  "('w, 'q) genai \<Rightarrow> config \<Rightarrow> 'w \<Rightarrow> (exn + 'q GeminiModel) \<times> 'w" where
  "GeminiModel_init sdk kwargs w =
     (let mn = dict_get kwargs ''model_name'' (VStr ''gemini-2.0-flash'');
          ak = dict_get kwargs ''api_key'' (VStr []);
          t = dict_get kwargs ''temperature'' (VFloat 0)
      in case Client sdk ak w of
           (Inl e, w') \<Rightarrow> (Inl e, w')
         | (Inr c, w') \<Rightarrow>
             (Inr \<lparr>model_name = mn, api_key = ak, temperature = t, client = c\<rparr>, w'))"

definition GeminiModel_class :: "('w, 'q) genai \<Rightarrow> ('w, 'q GeminiModel) pyclass" where
  "GeminiModel_class sdk = \<lparr>cls_name = ''GeminiModel'', cls_call = GeminiModel_init sdk\<rparr>"

text \<open>
  The \<^verbatim>\<open>try\<close> body of \<^verbatim>\<open>generate_text\<close>: the arguments are evaluated first (the
  config object), then the remote call is made, then \<^verbatim>\<open>response.text\<close> is read.
\<close>

definition generate_text_body ::
  "('w, 'q) genai \<Rightarrow> 'q GeminiModel \<Rightarrow> 'q \<Rightarrow> exn + pyval" where
  "generate_text_body sdk self contents =
     (case GenerateContentConfig sdk (temperature self) of
        Inl e \<Rightarrow> Inl e
      | Inr cfg \<Rightarrow>
          (case generate_content (client self) (model_name self) contents cfg of
             Inl e \<Rightarrow> Inl e
           | Inr r \<Rightarrow> Inr (response_text r)))"

definition generate_text :: "('w, 'q) genai \<Rightarrow> 'q GeminiModel \<Rightarrow> 'q \<Rightarrow> exn + pyval" where
  "generate_text sdk self contents =
     (case generate_text_body sdk self contents of
        Inl e \<Rightarrow> Inr (VStr [])
      | Inr v \<Rightarrow> Inr v)"

text \<open>
  \<^verbatim>\<open>generate_text_stream\<close> is a generator function: calling it runs nothing and gives
  a generator object. The object is either not started (it holds what the first
  statement of the body will get from the SDK), suspended at the \<^verbatim>\<open>yield\<close> with the
  rest of the response stream, or finished.
\<close>

datatype gen = Created "exn + (exn + chunk) list" | Suspended "(exn + chunk) list" | Finished

definition generate_text_stream :: "('w, 'q) genai \<Rightarrow> 'q GeminiModel \<Rightarrow> 'q \<Rightarrow> gen" where
  "generate_text_stream sdk self contents =
     Created
       (case GenerateContentConfig sdk (temperature self) of
          Inl e \<Rightarrow> Inl e
        | Inr cfg \<Rightarrow> generate_content_stream (client self) (model_name self) contents cfg)"

text \<open>
  One turn of the \<^verbatim>\<open>for\<close> loop inside the \<^verbatim>\<open>try\<close>. The result of a \<^verbatim>\<open>next\<close> on
  the generator is \<open>Inr (Some v)\<close> for a yielded \<open>v\<close>, \<open>Inr None\<close> for
  \<^verbatim>\<open>StopIteration\<close>, and \<open>Inl e\<close> for an exception that reaches the consumer. An
  exception of the stream is caught and the generator returns.
\<close>

fun stream_step :: "(exn + chunk) list \<Rightarrow> (exn + pyval option) \<times> gen" where
  "stream_step [] = (Inr None, Finished)"
| "stream_step (Inr c # es) = (Inr (Some (chunk_text c)), Suspended es)"
| "stream_step (Inl e # es) = (Inr None, Finished)"

fun gen_next :: "gen \<Rightarrow> (exn + pyval option) \<times> gen" where
  "gen_next (Created (Inl e)) = (Inr None, Finished)"
| "gen_next (Created (Inr es)) = stream_step es"
| "gen_next (Suspended es) = stream_step es"
| "gen_next Finished = (Inr None, Finished)"

text \<open>The size of what a generator object still has to do.\<close>

fun gen_size :: "gen \<Rightarrow> nat" where
  "gen_size (Created (Inl e)) = 1"
| "gen_size (Created (Inr es)) = length es + 2"
| "gen_size (Suspended es) = length es + 1"
| "gen_size Finished = 0"

text \<open>\<^verbatim>\<open>list(g)\<close>: the consumer calls \<^verbatim>\<open>next\<close> until \<^verbatim>\<open>StopIteration\<close>.\<close>

function py_list :: "gen \<Rightarrow> exn + pyval list" where
  "py_list g =
     (case gen_next g of
        (Inl e, g') \<Rightarrow> Inl e
      | (Inr None, g') \<Rightarrow> Inr []
      | (Inr (Some v), g') \<Rightarrow>
          (case py_list g' of Inl e \<Rightarrow> Inl e | Inr vs \<Rightarrow> Inr (v # vs)))"
  by pat_completeness auto

termination py_list
proof (relation "measure gen_size")
  show "wf (measure gen_size)" by simp
next
  fix g g' :: gen and r :: "exn + pyval option" and ov :: "pyval option" and v :: pyval
  assume "(r, g') = gen_next g" and "r = Inr ov" and "ov = Some v"
  then have "gen_next g = (Inr (Some v), g')" by simp
  then have "gen_size g' < gen_size g"
    by (cases g rule: gen_size.cases) (auto elim: stream_step.elims)
  then show "(g', g) \<in> measure gen_size" by simp
qed

definition create_chat :: "'q GeminiModel \<Rightarrow> exn + chat_session" where
  "create_chat self =
     (case chats_create (client self) (model_name self) of
        Inl e \<Rightarrow> Inl e
      | Inr chat \<Rightarrow> Inr chat)"

definition get_model_details :: "'q GeminiModel \<Rightarrow> config" where
  "get_model_details self =
     [(''provider'', VStr ''gemini''), (''model_name'', model_name self),
      (''temperature'', temperature self)]"

text \<open>\<^verbatim>\<open>GeminiChat\<close> has one attribute, the SDK's chat session.\<close>

definition send_message :: "chat_session \<Rightarrow> pyval \<Rightarrow> exn + pyval" where
  "send_message self message =
     (case session_send_message self message of
        Inl e \<Rightarrow> Inr (VStr [])
      | Inr r \<Rightarrow> Inr (response_text r))"

text \<open>
  The list comprehension of \<^verbatim>\<open>get_history\<close>: \<^verbatim>\<open>message.parts[0]\<close> raises
  \<^verbatim>\<open>IndexError\<close> on a message without parts, and that ends the comprehension.
\<close>

fun history_items :: "message list \<Rightarrow> exn + config list" where
  "history_items [] = Inr []"
| "history_items (m # ms) =
     (case parts m of
        [] \<Rightarrow> Inl (Exn ''IndexError'' ''list index out of range'')
      | p # _ \<Rightarrow>
          (case history_items ms of
             Inl e \<Rightarrow> Inl e
           | Inr items \<Rightarrow> Inr ([(''role'', role m), (''text'', part_text p)] # items)))"

definition get_history :: "chat_session \<Rightarrow> exn + config list" where
  "get_history self =
     (case session_get_history self of
        Inl e \<Rightarrow> Inr []
      | Inr history \<Rightarrow>
          (case history_items history of
             Inl e \<Rightarrow> Inr []
           | Inr items \<Rightarrow> Inr items))"

section \<open>Notions used by the properties\<close>

text \<open>The \<^verbatim>\<open>provider\<close> entry of a config is absent or a \<^verbatim>\<open>str\<close>.\<close>

definition provider_is_str :: "config \<Rightarrow> bool" where
  "provider_is_str config =
     (case dict_get config ''provider'' (VStr ''openai'') of VStr _ \<Rightarrow> True | _ \<Rightarrow> False)"

text \<open>
  Two classes for the closed examples, in a world without state: one whose call always
  returns an instance (its contents are the class's name), one whose call always raises.
\<close>

definition working_class :: "string \<Rightarrow> (unit, string) pyclass" where
  "working_class name = \<lparr>cls_name = name, cls_call = (\<lambda>kwargs w. (Inr name, w))\<rparr>"

definition failing_class :: "string \<Rightarrow> (unit, string) pyclass" where
  "failing_class name =
     \<lparr>cls_name = name, cls_call = (\<lambda>kwargs w. (Inl (Exn ''RuntimeError'' ''no client''), w))\<rparr>"

text \<open>
  \<^verbatim>\<open>ModelRouter()\<close> on an empty heap, once where every provider can be reached and
  once where none can.
\<close>

definition online_router :: "(unit, string) state" where
  "online_router =
     ModelRouter_init (working_class ''OpenAIModel'') (working_class ''GeminiModel'') None [] ()"

definition offline_router :: "(unit, string) state" where
  "offline_router =
     ModelRouter_init (failing_class ''OpenAIModel'') (failing_class ''GeminiModel'') None [] ()"

text \<open>The same router after its first \<^verbatim>\<open>get_default_model()\<close>.\<close>

definition online_router_cached :: "(unit, string) state" where
  "online_router_cached =
     online_router
       \<lparr>default_model := Some 0, heap := [''OpenAIModel''],
        calls := [(''OpenAIModel'',
                   [(''model_name'', VStr ''gpt-4''), (''temperature'', VFloat 0)])]\<rparr>"

text \<open>
  A Gemini client for the closed examples. Single-shot generation is unavailable; a
  stream for the empty prompt is refused, any other stream delivers two chunks and then
  breaks. One chat session cannot send and holds two well-formed messages; another holds
  a message without parts.
\<close>

definition unavailable :: exn where
  "unavailable = Exn ''ServerError'' ''503 UNAVAILABLE''"

definition example_client :: "string client" where
  "example_client =
     \<lparr>generate_content = (\<lambda>m q cfg. Inl unavailable),
      generate_content_stream =
        (\<lambda>m q cfg.
           if q = [] then Inl unavailable
           else Inr [Inr (Chunk (VStr ''Hel'')), Inr (Chunk (VStr ''lo'')), Inl unavailable,
                     Inr (Chunk (VStr ''!''))]),
      chats_create = (\<lambda>m. Inl unavailable)\<rparr>"

definition example_sdk :: "(unit, string) genai" where
  "example_sdk =
     \<lparr>Client = (\<lambda>k w. (Inr example_client, w)),
      GenerateContentConfig = (\<lambda>t. Inr (GenerateContentConfig_obj t))\<rparr>"

definition example_model :: "string GeminiModel" where
  "example_model =
     \<lparr>model_name = VStr ''gemini-2.0-flash'', api_key = VStr ''k'', temperature = VFloat 0,
      client = example_client\<rparr>"

definition example_chat :: chat_session where
  "example_chat =
     \<lparr>session_send_message = (\<lambda>m. Inl unavailable),
      session_get_history =
        Inr [Message (VStr ''user'') [Part (VStr ''hi''), Part (VStr ''there'')],
             Message (VStr ''model'') [Part (VStr ''hello'')]]\<rparr>"

definition partless_chat :: chat_session where
  "partless_chat =
     \<lparr>session_send_message = (\<lambda>m. Inl unavailable),
      session_get_history =
        Inr [Message (VStr ''user'') [Part (VStr ''hi'')], Message (VStr ''model'') []]\<rparr>"

declare py_list.simps [simp del]

section \<open>What a class call and a construction leave unchanged\<close>

lemma call_class_router:
  assumes "call_class c kw s = (r, s')"
  shows "models s' = models s" "model_classes s' = model_classes s"
    "default_model_config s' = default_model_config s" "default_model s' = default_model s"
    "calls s' = calls s @ [(cls_name c, kw)]"
  using assms by (auto simp: call_class_def split: prod.splits sum.splits)

lemma call_class_fresh:
  assumes "call_class c kw s = (Inr m, s')"
  shows "m = length (heap s)" "length (heap s') = Suc (length (heap s))"
  using assms by (auto simp: call_class_def split: prod.splits sum.splits)

lemma call_class_raises_heap:
  assumes "call_class c kw s = (Inl e, s')"
  shows "heap s' = heap s"
  using assms by (auto simp: call_class_def split: prod.splits sum.splits)

lemma try_construct_router:
  assumes "try_construct p config s = (r, s')"
  shows "models s' = models s" "model_classes s' = model_classes s"
    "default_model_config s' = default_model_config s" "default_model s' = default_model s"
  using assms by (auto simp: try_construct_def dest: call_class_router split: option.splits)

lemma try_construct_raises_heap:
  assumes "try_construct p config s = (Inl e, s')"
  shows "heap s' = heap s"
  using assms by (auto simp: try_construct_def dest: call_class_raises_heap split: option.splits)

lemma try_construct_fresh:
  assumes "try_construct p config s = (Inr m, s')"
  shows "m = length (heap s)" "length (heap s') = Suc (length (heap s))"
  using assms by (auto simp: try_construct_def dest: call_class_fresh split: option.splits)

text \<open>The four ways through \<^verbatim>\<open>_create_model_from_config\<close>.\<close>

lemma create_model_cases:
  assumes "create_model_from_config OAI config s = (r, s')"
  obtains (unresolved) e where "resolve_provider s config = Inl e" "r = Inl e" "s' = s"
  | (primary) p m where "resolve_provider s config = Inr p"
      "try_construct p config s = (Inr m, s')" "r = Inr m"
  | (fallback) p e s1 m where "resolve_provider s config = Inr p"
      "try_construct p config s = (Inl e, s1)"
      "call_class OAI [(''model_name'', VStr ''gpt-4'')] s1 = (Inr m, s')" "r = Inr m"
  | (failed) p e s1 e1 where "resolve_provider s config = Inr p"
      "try_construct p config s = (Inl e, s1)"
      "call_class OAI [(''model_name'', VStr ''gpt-4'')] s1 = (Inl e1, s')"
      "r = Inl (Exn ''ValueError'' (''Failed to create model: '' @ exn_str e))"
  using assms unfolding create_model_from_config_def
  by (auto split: sum.splits prod.splits)

lemma create_model_router:
  assumes "create_model_from_config OAI config s = (r, s')"
  shows "models s' = models s \<and> model_classes s' = model_classes s \<and>
    default_model_config s' = default_model_config s \<and> default_model s' = default_model s"
  using assms
proof (cases rule: create_model_cases)
  case (unresolved e)
  then show ?thesis by simp
next
  case (primary p m)
  then show ?thesis using try_construct_router by blast
next
  case (fallback p e s1 m)
  then show ?thesis using try_construct_router [of p config s "Inl e" s1]
      call_class_router [of OAI _ s1 "Inr m" s'] by simp
next
  case (failed p e s1 e1)
  then show ?thesis using try_construct_router [of p config s "Inl e" s1]
      call_class_router [of OAI _ s1 "Inl e1" s'] by simp
qed

lemma create_model_fresh:
  assumes "create_model_from_config OAI config s = (Inr m, s')"
  shows "m = length (heap s) \<and> length (heap s') = Suc (length (heap s))"
  using assms
proof (cases rule: create_model_cases)
  case (primary p m')
  then show ?thesis using try_construct_fresh [of p config s m s'] by simp
next
  case (fallback p e s1 m')
  then show ?thesis using try_construct_raises_heap [of p config s e s1]
     call_class_fresh [of OAI _ s1 m s'] by simp
qed simp_all

lemma get_default_model_router:
  assumes "get_default_model OAI s = (r, s')"
  shows "models s' = models s" "model_classes s' = model_classes s"
    "default_model_config s' = default_model_config s"
  using assms
  by (auto simp: get_default_model_def dest: create_model_router
           split: option.splits sum.splits prod.splits)

lemma get_model_router:
  assumes "get_model OAI a s = (r, s')"
  shows "models s' = models s \<and> model_classes s' = model_classes s"
  using assms
  by (cases a) (auto dest: get_default_model_router create_model_router split: option.splits)

lemma select_model_router:
  assumes "select_model_for_task OAI t req s = (r, s')"
  shows "models s' = models s \<and> model_classes s' = model_classes s"
  using assms
  by (auto simp: select_model_for_task_def dest: get_default_model_router create_model_router
        split: option.splits if_splits)

lemma get_model_raises:
  assumes "get_model OAI a s = (Inl e, s')"
  shows "\<exists>c. (a = Dict c \<or> c = default_model_config s) \<and>
           create_model_from_config OAI c s = (Inl e, s')"
  using assms
  by (cases a) (auto simp: get_default_model_def split: option.splits sum.splits prod.splits)

lemma resolve_str:
  assumes "provider_is_str config"
  shows "\<exists>p. resolve_provider s config = Inr p"
  using assms
  by (auto simp: provider_is_str_def resolve_provider_def split: pyval.splits)

lemma resolve_provider_unknown:
  assumes "map_of config ''provider'' = Some (VStr p)"
    and "\<not> dict_contains (str_lower p) (model_classes s)"
  shows "resolve_provider s config = Inr ''openai''"
  using assms by (simp add: resolve_provider_def dict_get_def)

lemma resolve_provider_openai:
  "resolve_provider s (AList.update ''provider'' (VStr ''openai'') config) = Inr ''openai''"
  by (simp add: resolve_provider_def dict_get_def update_conv' str_lower_def lower_char_def)

text \<open>A call other than \<^verbatim>\<open>register_model(name, _)\<close> leaves the entry of \<open>name\<close> as it is.\<close>

lemma exec_models:
  assumes "\<forall>m. c \<noteq> Register_model name m"
  shows "map_of (models (exec OAI c s)) name = map_of (models s) name"
proof (cases c)
  case (Register_model n m)
  with assms have "n \<noteq> name" by auto
  with Register_model show ?thesis by (simp add: register_model_def update_conv')
next
  case (Register_model_class p k)
  then show ?thesis by (simp add: register_model_class_def)
next
  case (Get_model a)
  obtain r s' where "get_model OAI a s = (r, s')" by (cases "get_model OAI a s")
  then show ?thesis using Get_model get_model_router [of OAI a s r s'] by simp
next
  case Get_default_model
  obtain r s' where "get_default_model OAI s = (r, s')" by (cases "get_default_model OAI s")
  then show ?thesis using Get_default_model get_default_model_router(1) [of OAI s r s'] by simp
next
  case (Select_model_for_task t req)
  obtain r s' where "select_model_for_task OAI t req s = (r, s')"
    by (cases "select_model_for_task OAI t req s")
  then show ?thesis using Select_model_for_task select_model_router [of OAI t req s r s'] by simp
qed

lemma run_models:
  assumes "\<forall>c \<in> set cs. \<forall>m. c \<noteq> Register_model name m"
  shows "map_of (models (run OAI cs s)) name = map_of (models s) name"
  using assms
proof (induction cs arbitrary: s)
  case Nil
  then show ?case by simp
next
  case (Cons c cs)
  then show ?case using exec_models [of c name OAI s] by simp
qed

text \<open>
  The keys of the class registry after any calls: those it had, and every provider string
  handed to \<^verbatim>\<open>register_model_class\<close>, as it was written.
\<close>

lemma exec_model_classes_keys:
  "fst ` set (model_classes (exec OAI c s)) =
     fst ` set (model_classes s) \<union> (case c of Register_model_class p k \<Rightarrow> {p} | _ \<Rightarrow> {})"
proof (cases c)
  case (Register_model n m)
  then show ?thesis by (simp add: register_model_def)
next
  case (Register_model_class p k)
  then show ?thesis by (auto simp: register_model_class_def dom_update)
next
  case (Get_model a)
  obtain r s' where "get_model OAI a s = (r, s')" by (cases "get_model OAI a s")
  then show ?thesis using Get_model get_model_router [of OAI a s r s'] by simp
next
  case Get_default_model
  obtain r s' where "get_default_model OAI s = (r, s')" by (cases "get_default_model OAI s")
  then show ?thesis using Get_default_model get_default_model_router(2) [of OAI s r s'] by simp
next
  case (Select_model_for_task t req)
  obtain r s' where "select_model_for_task OAI t req s = (r, s')"
    by (cases "select_model_for_task OAI t req s")
  then show ?thesis using Select_model_for_task select_model_router [of OAI t req s r s'] by simp
qed

lemma run_model_classes_keys:
  "fst ` set (model_classes (run OAI cs s)) =
     fst ` set (model_classes s) \<union> {p. \<exists>k. Register_model_class p k \<in> set cs}"
proof (induction cs arbitrary: s)
  case Nil
  then show ?case by simp
next
  case (Cons c cs)
  show ?case
    unfolding run.simps Cons.IH exec_model_classes_keys
    by (cases c) auto
qed

text \<open>
  The round trip of registration and resolution, for a key that is its own lower-case
  form: the class registered for it is the one called.
\<close>

lemma create_model_lower_case_key:
  assumes "map_of config ''provider'' = Some (VStr P)" and "str_lower P = P"
    and "map_of (model_classes s) P = Some c"
    and "call_class c (AList.delete ''provider'' config) s = (Inr m, s')"
  shows "create_model_from_config OAI config s = (Inr m, s')"
proof -
  have "dict_contains P (model_classes s)"
    using assms(3) by (auto simp: dict_contains_def dest: map_of_SomeD intro: rev_image_eqI)
  then have "resolve_provider s config = Inr P"
    using assms(1,2) by (simp add: resolve_provider_def dict_get_def)
  moreover have "try_construct P config s = (Inr m, s')"
    using assms(3,4) by (simp add: try_construct_def)
  ultimately show ?thesis by (simp add: create_model_from_config_def)
qed

text \<open>The facts that evaluate the router on the example classes.\<close>

lemmas router_eval = online_router_def offline_router_def ModelRouter_init_def
  register_model_class_def register_model_def
  create_model_from_config_def resolve_provider_def try_construct_def call_class_def
  get_default_model_def select_model_for_task_def dict_get_def dict_contains_def
  str_lower_def lower_char_def working_class_def failing_class_def provider_is_str_def

section \<open>Registration and resolution of providers\<close>

text \<open>
  C1. For every provider key of the class registry, initial or added later by
  \<^verbatim>\<open>register_model_class\<close>, a config naming that provider is to be built by the class
  registered for the key. Evaluated here on a key with an upper-case letter: after
  \<^verbatim>\<open>register_model_class("Anthropic", AnthropicModel)\<close> the registry has the key
  \<^verbatim>\<open>"Anthropic"\<close>, yet the config \<^verbatim>\<open>{"provider": "Anthropic", "model_name": "claude"}\<close>
  is built by one call of \<^verbatim>\<open>OpenAIModel\<close> and by no call of the registered class,
  because the lookup lower-cases the provider and the registration does not.
\<close>

theorem create_model_mixed_case_key:
  "map_option cls_name
     (map_of (model_classes
        (register_model_class ''Anthropic'' (working_class ''AnthropicModel'') online_router))
        ''Anthropic'') = Some ''AnthropicModel'' \<and>
   fst (create_model_from_config (working_class ''OpenAIModel'')
          [(''provider'', VStr ''Anthropic''), (''model_name'', VStr ''claude'')]
          (register_model_class ''Anthropic'' (working_class ''AnthropicModel'') online_router))
     = Inr 0 \<and>
   calls (snd (create_model_from_config (working_class ''OpenAIModel'')
          [(''provider'', VStr ''Anthropic''), (''model_name'', VStr ''claude'')]
          (register_model_class ''Anthropic'' (working_class ''AnthropicModel'') online_router)))
     = [(''OpenAIModel'', [(''model_name'', VStr ''claude'')])]"
  by (simp add: router_eval)

text \<open>
  C9. After any calls, every key of the class registry is to be a lower-case string.
  Evaluated here on one call: \<^verbatim>\<open>register_model_class("Anthropic", AnthropicModel)\<close> leaves
  the keys \<^verbatim>\<open>openai\<close>, \<^verbatim>\<open>gemini\<close> and \<^verbatim>\<open>Anthropic\<close>, and the last is not its own
  lower-case form.
\<close>

theorem register_model_class_keeps_case:
  "map fst (model_classes
     (run (working_class ''OpenAIModel'')
        [Register_model_class ''Anthropic'' (working_class ''AnthropicModel'')]
        online_router)) = [''openai'', ''gemini'', ''Anthropic''] \<and>
   str_lower ''Anthropic'' = ''anthropic''"
  by (simp add: router_eval)

section \<open>Failures of construction\<close>

text \<open>
  C2, as amended. For every config whose \<^verbatim>\<open>provider\<close> entry is absent or a string,
  the provider resolves; if building the resolved provider's model raises, the router
  calls \<^verbatim>\<open>OpenAIModel(model_name="gpt-4")\<close> exactly once more;
  \<^verbatim>\<open>_create_model_from_config\<close> raises if and only if that call raises too, and then it
  raises the \<^verbatim>\<open>ValueError\<close> carrying the first failure's message. An error that leaves
  \<^verbatim>\<open>get_default_model\<close>, \<^verbatim>\<open>get_model\<close> or \<^verbatim>\<open>select_model_for_task\<close> is an error of
  \<^verbatim>\<open>_create_model_from_config\<close> on the config given or on the default config.
\<close>

theorem fallback_is_the_only_failure:
  assumes "provider_is_str config"
  shows "(\<exists>p. resolve_provider s config = Inr p) \<and>
    (resolve_provider s config = Inr p \<and> try_construct p config s = (Inl e0, s1) \<longrightarrow>
       calls (snd (create_model_from_config OAI config s)) =
         calls s1 @ [(cls_name OAI, [(''model_name'', VStr ''gpt-4'')])]) \<and>
    (create_model_from_config OAI config s = (Inl e, s') \<longleftrightarrow>
       (\<exists>p e0 s1 e1. resolve_provider s config = Inr p \<and>
          try_construct p config s = (Inl e0, s1) \<and>
          call_class OAI [(''model_name'', VStr ''gpt-4'')] s1 = (Inl e1, s') \<and>
          e = Exn ''ValueError'' (''Failed to create model: '' @ exn_str e0))) \<and>
    (get_default_model OAI s = (Inl e, s') \<longrightarrow>
       create_model_from_config OAI (default_model_config s) s = (Inl e, s')) \<and>
    (get_model OAI a s = (Inl e, s') \<longrightarrow>
       (\<exists>c. (a = Dict c \<or> c = default_model_config s) \<and>
            create_model_from_config OAI c s = (Inl e, s'))) \<and>
    (select_model_for_task OAI task requirements s = (Inl e, s') \<longrightarrow>
       (\<exists>c. (requirements = Some c \<or> c = default_model_config s) \<and>
            create_model_from_config OAI c s = (Inl e, s')))"
proof -
  obtain q where q: "resolve_provider s config = Inr q"
    using resolve_str [OF assms] by blast
  have one: "resolve_provider s config = Inr p \<and> try_construct p config s = (Inl e0, s1) \<longrightarrow>
       calls (snd (create_model_from_config OAI config s)) =
         calls s1 @ [(cls_name OAI, [(''model_name'', VStr ''gpt-4'')])]"
    by (auto simp: create_model_from_config_def call_class_def split: sum.splits prod.splits)
  have iff: "create_model_from_config OAI config s = (Inl e, s') \<longleftrightarrow>
       (\<exists>p e0 s1 e1. resolve_provider s config = Inr p \<and>
          try_construct p config s = (Inl e0, s1) \<and>
          call_class OAI [(''model_name'', VStr ''gpt-4'')] s1 = (Inl e1, s') \<and>
          e = Exn ''ValueError'' (''Failed to create model: '' @ exn_str e0))"
    using q by (auto simp: create_model_from_config_def split: sum.splits prod.splits)
  have dflt: "get_default_model OAI s = (Inl e, s') \<longrightarrow>
       create_model_from_config OAI (default_model_config s) s = (Inl e, s')"
    by (auto simp: get_default_model_def split: option.splits sum.splits prod.splits)
  have gm: "get_model OAI a s = (Inl e, s') \<longrightarrow>
       (\<exists>c. (a = Dict c \<or> c = default_model_config s) \<and>
            create_model_from_config OAI c s = (Inl e, s'))"
    using get_model_raises by blast
  have sel: "select_model_for_task OAI task requirements s = (Inl e, s') \<longrightarrow>
       (\<exists>c. (requirements = Some c \<or> c = default_model_config s) \<and>
            create_model_from_config OAI c s = (Inl e, s'))"
    using dflt by (auto simp: select_model_for_task_def split: option.splits if_splits)
  from q one iff dflt gm sel show ?thesis by blast
qed

theorem fallback_is_the_only_failure_witness:
  "provider_is_str (default_model_config offline_router) \<and>
   resolve_provider offline_router (default_model_config offline_router) = Inr ''openai'' \<and>
   fst (try_construct ''openai'' (default_model_config offline_router) offline_router) =
     Inl (Exn ''RuntimeError'' ''no client'') \<and>
   calls (snd (create_model_from_config (failing_class ''OpenAIModel'')
            (default_model_config offline_router) offline_router)) =
     [(''OpenAIModel'', [(''model_name'', VStr ''gpt-4''), (''temperature'', VFloat 0)]),
      (''OpenAIModel'', [(''model_name'', VStr ''gpt-4'')])] \<and>
   fst (get_default_model (failing_class ''OpenAIModel'') offline_router) =
     Inl (Exn ''ValueError'' ''Failed to create model: no client'') \<and>
   fst (get_model (failing_class ''OpenAIModel'') (Str ''nope'') offline_router) =
     Inl (Exn ''ValueError'' ''Failed to create model: no client'') \<and>
   fst (select_model_for_task (failing_class ''OpenAIModel'') ''translate'' None offline_router) =
     Inl (Exn ''ValueError'' ''Failed to create model: no client'') \<and>
   create_model_from_config (failing_class ''OpenAIModel'')
       (default_model_config offline_router) offline_router =
     (Inl (Exn ''ValueError'' ''Failed to create model: no client''),
      snd (get_default_model (failing_class ''OpenAIModel'') offline_router))"
  using fallback_is_the_only_failure
    [of "default_model_config offline_router" offline_router "''openai''"
      "Exn ''RuntimeError'' ''no client''"
      "snd (try_construct ''openai'' (default_model_config offline_router) offline_router)"
      "failing_class ''OpenAIModel''"
      "Exn ''ValueError'' ''Failed to create model: no client''"
      "snd (get_default_model (failing_class ''OpenAIModel'') offline_router)"
      "Str ''nope''" "''translate''" None]
  by (simp add: router_eval)

text \<open>
  The claim as first stated fails where the \<^verbatim>\<open>provider\<close> entry is not a string: for
  \<^verbatim>\<open>{"provider": None}\<close> the call of \<^verbatim>\<open>.lower()\<close> raises \<^verbatim>\<open>AttributeError\<close> out of
  \<^verbatim>\<open>_create_model_from_config\<close>, although no class was called and none failed.
\<close>

theorem non_string_provider_counterexample:
  "create_model_from_config (working_class ''OpenAIModel'') [(''provider'', VNone)]
     online_router =
   (Inl (Exn ''AttributeError''
      (squote @ ''NoneType'' @ squote @ '' object has no attribute '' @ squote @ ''lower''
         @ squote)),
    online_router)"
  by (simp add: router_eval)

section \<open>Unknown providers\<close>

text \<open>
  C3, as amended. For every config whose \<^verbatim>\<open>provider\<close> entry is a string whose
  lower-case form is not a key of the class registry, the provider resolves to
  \<^verbatim>\<open>"openai"\<close> without raising, and \<^verbatim>\<open>_create_model_from_config\<close> does exactly what it
  does on the same config with \<^verbatim>\<open>provider\<close> set to \<^verbatim>\<open>"openai"\<close>.
\<close>

theorem unknown_provider_resolves_to_openai:
  assumes "map_of config ''provider'' = Some (VStr p)"
    and "\<not> dict_contains (str_lower p) (model_classes s)"
  shows "resolve_provider s config = Inr ''openai'' \<and>
    create_model_from_config OAI config s =
      create_model_from_config OAI (AList.update ''provider'' (VStr ''openai'') config) s"
proof -
  have r: "resolve_provider s config = Inr ''openai''"
    using assms by (rule resolve_provider_unknown)
  have t: "try_construct ''openai'' (AList.update ''provider'' (VStr ''openai'') config) s =
      try_construct ''openai'' config s"
    by (simp add: try_construct_def delete_update_same split: option.splits)
  show ?thesis
    using r t by (simp add: create_model_from_config_def resolve_provider_openai)
qed

theorem unknown_provider_resolves_to_openai_witness:
  "map_of [(''provider'', VStr ''Mistral''), (''model_name'', VStr ''large'')] ''provider'' =
     Some (VStr ''Mistral'') \<and>
   \<not> dict_contains (str_lower ''Mistral'') (model_classes online_router) \<and>
   resolve_provider online_router
     [(''provider'', VStr ''Mistral''), (''model_name'', VStr ''large'')] = Inr ''openai'' \<and>
   create_model_from_config (working_class ''OpenAIModel'')
     [(''provider'', VStr ''Mistral''), (''model_name'', VStr ''large'')] online_router =
   create_model_from_config (working_class ''OpenAIModel'')
     [(''provider'', VStr ''openai''), (''model_name'', VStr ''large'')] online_router"
  using unknown_provider_resolves_to_openai
    [of "[(''provider'', VStr ''Mistral''), (''model_name'', VStr ''large'')]" "''Mistral''"
      online_router "working_class ''OpenAIModel''"]
  by (simp add: router_eval)

text \<open>
  The claim as first stated fails for \<^verbatim>\<open>{"provider": "GEMINI"}\<close>: the string is not a
  key of the registry, yet the provider resolves to \<^verbatim>\<open>"gemini"\<close> and the class called is
  \<^verbatim>\<open>GeminiModel\<close>; and for \<^verbatim>\<open>{"provider": None}\<close> resolution raises.
\<close>

theorem upper_case_provider_counterexample:
  "\<not> dict_contains ''GEMINI'' (model_classes online_router) \<and>
   resolve_provider online_router [(''provider'', VStr ''GEMINI'')] = Inr ''gemini'' \<and>
   calls (snd (create_model_from_config (working_class ''OpenAIModel'')
      [(''provider'', VStr ''GEMINI'')] online_router)) = [(''GeminiModel'', [])] \<and>
   resolve_provider online_router [(''provider'', VNone)] =
     Inl (Exn ''AttributeError''
       (squote @ ''NoneType'' @ squote @ '' object has no attribute '' @ squote @ ''lower''
          @ squote))"
  by (simp add: router_eval)

section \<open>The default model\<close>

text \<open>
  C4. When a call of \<^verbatim>\<open>get_default_model\<close> returns an instance, the next call, and
  each of any number of further calls, returns the same reference and changes nothing:
  no class is called again. If no default was cached, the first call built the instance
  from the router's default config and stored it; if one was cached, the first call
  returned it and changed nothing.
\<close>

theorem get_default_model_memoized:
  assumes "get_default_model OAI s = (Inr m, s1)"
  shows "get_default_model OAI s1 = (Inr m, s1) \<and> default_model s1 = Some m \<and>
    run OAI (replicate n Get_default_model) s1 = s1 \<and>
    (default_model s = None \<longrightarrow>
       (\<exists>s'. create_model_from_config OAI (default_model_config s) s = (Inr m, s') \<and>
             s1 = s'\<lparr>default_model := Some m\<rparr>)) \<and>
    (default_model s \<noteq> None \<longrightarrow> default_model s = Some m \<and> s1 = s)"
proof -
  have c: "default_model s1 = Some m"
    using assms
    by (auto simp: get_default_model_def split: option.splits sum.splits prod.splits)
  then have again: "get_default_model OAI s1 = (Inr m, s1)"
    by (simp add: get_default_model_def)
  have rep: "run OAI (replicate n Get_default_model) s1 = s1"
    using again by (induction n) simp_all
  have first: "default_model s = None \<longrightarrow>
       (\<exists>s'. create_model_from_config OAI (default_model_config s) s = (Inr m, s') \<and>
             s1 = s'\<lparr>default_model := Some m\<rparr>)"
    using assms
    by (auto simp: get_default_model_def split: option.splits sum.splits prod.splits)
  have cached: "default_model s \<noteq> None \<longrightarrow> default_model s = Some m \<and> s1 = s"
    using assms
    by (auto simp: get_default_model_def split: option.splits sum.splits prod.splits)
  from c again rep first cached show ?thesis by blast
qed

theorem get_default_model_memoized_witness:
  "get_default_model (working_class ''OpenAIModel'') online_router =
     (Inr 0, online_router_cached) \<and>
   default_model online_router = None \<and>
   default_model online_router_cached \<noteq> None \<and>
   get_default_model (working_class ''OpenAIModel'') online_router_cached =
     (Inr 0, online_router_cached) \<and>
   run (working_class ''OpenAIModel'') (replicate 3 Get_default_model) online_router_cached =
     online_router_cached"
proof -
  have first: "get_default_model (working_class ''OpenAIModel'') online_router =
     (Inr 0, online_router_cached)"
    by (simp add: router_eval online_router_cached_def)
  have none: "default_model online_router = None"
    by (simp add: router_eval)
  note fresh = get_default_model_memoized [OF first, of 3]
  then have again: "get_default_model (working_class ''OpenAIModel'') online_router_cached =
     (Inr 0, online_router_cached)"
    by blast
  from fresh have c: "default_model online_router_cached = Some 0"
    by blast
  from get_default_model_memoized [OF again, of 3]
  have rep: "run (working_class ''OpenAIModel'') (replicate 3 Get_default_model)
      online_router_cached = online_router_cached"
    by blast
  show ?thesis using first none c again rep by simp
qed

text \<open>
  C5, as amended. For a name that no call of \<^verbatim>\<open>register_model\<close> has registered since
  the router was made, \<^verbatim>\<open>get_model(name)\<close> does exactly what \<^verbatim>\<open>get_default_model()\<close>
  does: the same instance and the same router afterwards, or the same error when the
  default model cannot be built.
\<close>

theorem get_model_unregistered_name:
  assumes "\<forall>c \<in> set cs. \<forall>m. c \<noteq> Register_model name m"
  shows "get_model OAI (Str name) (run OAI cs (ModelRouter_init OAI G cfg h w)) =
    get_default_model OAI (run OAI cs (ModelRouter_init OAI G cfg h w))"
proof -
  have "map_of (models (run OAI cs (ModelRouter_init OAI G cfg h w))) name =
      map_of (models (ModelRouter_init OAI G cfg h w)) name"
    using assms by (rule run_models)
  then have "map_of (models (run OAI cs (ModelRouter_init OAI G cfg h w))) name = None"
    by (simp add: ModelRouter_init_def)
  then show ?thesis by simp
qed

theorem get_model_unregistered_name_witness:
  "list_all (\<lambda>c. \<forall>m. c \<noteq> Register_model ''nope'' m)
     [Register_model ''fast'' 7, Get_default_model :: (unit, string) call] \<and>
   get_model (working_class ''OpenAIModel'') (Str ''nope'')
     (run (working_class ''OpenAIModel'') [Register_model ''fast'' 7, Get_default_model]
        online_router) =
   get_default_model (working_class ''OpenAIModel'')
     (run (working_class ''OpenAIModel'') [Register_model ''fast'' 7, Get_default_model]
        online_router) \<and>
   fst (get_model (working_class ''OpenAIModel'') (Str ''nope'')
     (run (working_class ''OpenAIModel'') [Register_model ''fast'' 7, Get_default_model]
        online_router)) = Inr 0"
  using get_model_unregistered_name
    [of "[Register_model ''fast'' 7, Get_default_model]" "''nope''"
      "working_class ''OpenAIModel''" "working_class ''GeminiModel''" None "[]" "()"]
  by (simp add: router_eval)

text \<open>
  The claim as first stated fails where no provider can be reached: the name was never
  registered, and \<^verbatim>\<open>get_model\<close> raises the \<^verbatim>\<open>ValueError\<close> of the failed fallback.
\<close>

theorem get_model_unknown_name_counterexample:
  "fst (get_model (failing_class ''OpenAIModel'') (Str ''nope'') offline_router) =
     Inl (Exn ''ValueError'' ''Failed to create model: no client'')"
  by (simp add: router_eval)

section \<open>Selection by task\<close>

text \<open>
  C8, as amended. For every task and every requirements mapping that is not empty,
  \<^verbatim>\<open>select_model_for_task\<close> is \<^verbatim>\<open>_create_model_from_config\<close> on the requirements: an
  instance it returns is at a fresh address, and neither the named instances nor the
  cached default change. Without requirements, or with an empty mapping, it is
  \<^verbatim>\<open>get_default_model\<close>. The task never influences the result.
\<close>

theorem select_model_for_task_requirements:
  "(r \<noteq> [] \<longrightarrow>
      select_model_for_task OAI task (Some r) s = create_model_from_config OAI r s) \<and>
   (r \<noteq> [] \<and> select_model_for_task OAI task (Some r) s = (Inr m, s') \<longrightarrow>
      m = length (heap s) \<and> length (heap s') = Suc (length (heap s)) \<and>
      models s' = models s \<and> default_model s' = default_model s) \<and>
   select_model_for_task OAI task None s = get_default_model OAI s \<and>
   select_model_for_task OAI task (Some []) s = get_default_model OAI s \<and>
   select_model_for_task OAI task requirements s =
     select_model_for_task OAI task' requirements s"
  using create_model_fresh [of OAI r s m s'] create_model_router [of OAI r s "Inr m" s']
  by (auto simp: select_model_for_task_def)

theorem select_model_for_task_requirements_witness:
  "[(''provider'', VStr ''gemini'')] \<noteq> [] \<and>
   select_model_for_task (working_class ''OpenAIModel'') ''summarise''
       (Some [(''provider'', VStr ''gemini'')]) online_router =
     (Inr 0, snd (create_model_from_config (working_class ''OpenAIModel'')
        [(''provider'', VStr ''gemini'')] online_router)) \<and>
   heap (snd (create_model_from_config (working_class ''OpenAIModel'')
        [(''provider'', VStr ''gemini'')] online_router)) = [''GeminiModel''] \<and>
   default_model (snd (create_model_from_config (working_class ''OpenAIModel'')
        [(''provider'', VStr ''gemini'')] online_router)) = None"
  using select_model_for_task_requirements
    [of "[(''provider'', VStr ''gemini'')]" "working_class ''OpenAIModel''" "''summarise''"
      online_router 0
      "snd (create_model_from_config (working_class ''OpenAIModel'')
        [(''provider'', VStr ''gemini'')] online_router)"]
  by (simp add: router_eval)

text \<open>
  The claim as first stated fails for the empty mapping \<^verbatim>\<open>{}\<close>, which is given and yet
  falsy: the cached default instance comes back and nothing is built, where
  \<^verbatim>\<open>_create_model_from_config({})\<close> would have built a second instance.
\<close>

theorem empty_requirements_counterexample:
  "select_model_for_task (working_class ''OpenAIModel'') ''summarise'' (Some [])
     online_router_cached = (Inr 0, online_router_cached) \<and>
   fst (create_model_from_config (working_class ''OpenAIModel'') [] online_router_cached)
     = Inr 1"
  by (simp add: router_eval online_router_cached_def)

section \<open>The Gemini adapter\<close>

lemma stream_step_not_Inl: "fst (stream_step es) \<noteq> Inl e"
  by (cases es rule: stream_step.cases) simp_all

text \<open>What a suspended generator still yields: the chunks before the first failure.\<close>

lemma py_list_Suspended:
  "py_list (Suspended es) = Inr (map (chunk_text \<circ> projr) (takeWhile (\<lambda>x. \<not> isl x) es))"
proof (induction es)
  case Nil
  show ?case by (simp add: py_list.simps)
next
  case (Cons x es)
  show ?case
  proof (cases x)
    case (Inl e)
    then show ?thesis by (simp add: py_list.simps)
  next
    case (Inr c)
    then show ?thesis using Cons.IH by (simp add: py_list.simps [of "Suspended (Inr c # es)"])
  qed
qed

lemma py_list_Created:
  "py_list (Created out) =
     (case out of Inl e \<Rightarrow> Inr []
      | Inr es \<Rightarrow> Inr (map (chunk_text \<circ> projr) (takeWhile (\<lambda>x. \<not> isl x) es)))"
proof (cases out)
  case (Inl e)
  then show ?thesis by (simp add: py_list.simps)
next
  case (Inr es)
  have "py_list (Created (Inr es)) = py_list (Suspended es)"
    by (simp add: py_list.simps [of "Created (Inr es)"] py_list.simps [of "Suspended es"])
  then show ?thesis using Inr by (simp add: py_list_Suspended)
qed

lemma takeWhile_chunks:
  "takeWhile (\<lambda>x. \<not> isl x) (map Inr cs @ Inl e # rest) = map Inr cs"
  by (induction cs) simp_all

lemma history_items_all:
  assumes "\<forall>m \<in> set history. parts m \<noteq> []"
  shows "history_items history =
    Inr (map (\<lambda>m. [(''role'', role m), (''text'', part_text (hd (parts m)))]) history)"
  using assms by (induction history) (auto split: list.splits)

lemma history_items_some_empty:
  assumes "\<exists>m \<in> set history. parts m = []"
  shows "\<exists>e. history_items history = Inl e"
  using assms
proof (induction history)
  case Nil
  then show ?case by simp
next
  case (Cons m ms)
  show ?case
  proof (cases "parts m")
    case Nil
    then show ?thesis by simp
  next
    case (Cons p ps)
    with Cons.prems have "\<exists>m \<in> set ms. parts m = []" by auto
    then obtain e where "history_items ms = Inl e" using Cons.IH by blast
    then show ?thesis using Cons by simp
  qed
qed

text \<open>The facts that evaluate the adapter on the example client.\<close>

lemmas gemini_eval = example_client_def example_sdk_def example_model_def example_chat_def
  partless_chat_def unavailable_def generate_text_def generate_text_body_def
  generate_text_stream_def send_message_def get_history_def

text \<open>
  C6. When the remote call of \<^verbatim>\<open>generate_text\<close> raises, \<^verbatim>\<open>generate_text\<close> returns the
  empty string; when the session's \<^verbatim>\<open>send_message\<close> raises, \<^verbatim>\<open>GeminiChat.send_message\<close>
  returns the empty string; and neither operation ever raises.
\<close>

theorem generation_failure_gives_empty_string:
  "(GenerateContentConfig sdk (temperature self) = Inr cfg \<and>
    generate_content (client self) (model_name self) contents cfg = Inl e \<longrightarrow>
      generate_text sdk self contents = Inr (VStr [])) \<and>
   (session_send_message chat message = Inl e \<longrightarrow> send_message chat message = Inr (VStr [])) \<and>
   generate_text sdk self contents \<noteq> Inl e' \<and>
   send_message chat message \<noteq> Inl e'"
  by (auto simp: generate_text_def generate_text_body_def send_message_def split: sum.splits)

theorem generation_failure_gives_empty_string_witness:
  "GenerateContentConfig example_sdk (temperature example_model) =
     Inr (GenerateContentConfig_obj (VFloat 0)) \<and>
   generate_content (client example_model) (model_name example_model) ''Hi''
     (GenerateContentConfig_obj (VFloat 0)) = Inl unavailable \<and>
   session_send_message example_chat (VStr ''Hi'') = Inl unavailable \<and>
   generate_text example_sdk example_model ''Hi'' = Inr (VStr []) \<and>
   send_message example_chat (VStr ''Hi'') = Inr (VStr [])"
  using generation_failure_gives_empty_string
    [of example_sdk example_model "GenerateContentConfig_obj (VFloat 0)" "''Hi''" unavailable
      example_chat "VStr ''Hi''"]
  by (simp add: gemini_eval py_list.simps)

text \<open>
  C7. For every input, consuming the generator of \<^verbatim>\<open>generate_text_stream\<close> ends with a
  finite list and without an exception, and no single \<^verbatim>\<open>next\<close> raises. When the
  response stream delivers the chunks \<open>cs\<close> and then fails, the list is exactly the
  texts of \<open>cs\<close> (none if it fails at once); when the stream cannot be opened, the list
  is empty.
\<close>

theorem generate_text_stream_stops_at_failure:
  "(\<exists>vs. py_list (generate_text_stream sdk self contents) = Inr vs) \<and>
   fst (gen_next g) \<noteq> Inl e' \<and>
   (GenerateContentConfig sdk (temperature self) = Inr cfg \<and>
    generate_content_stream (client self) (model_name self) contents cfg =
      Inr (map Inr cs @ Inl e # rest) \<longrightarrow>
      py_list (generate_text_stream sdk self contents) = Inr (map chunk_text cs)) \<and>
   (GenerateContentConfig sdk (temperature self) = Inr cfg \<and>
    generate_content_stream (client self) (model_name self) contents cfg = Inl e \<longrightarrow>
      py_list (generate_text_stream sdk self contents) = Inr [])"
proof -
  have fin: "\<exists>vs. py_list (generate_text_stream sdk self contents) = Inr vs"
    by (simp add: generate_text_stream_def py_list_Created split: sum.splits)
  have nxt: "fst (gen_next g) \<noteq> Inl e'"
    by (cases g rule: gen_next.cases) (simp_all add: stream_step_not_Inl)
  have mid: "GenerateContentConfig sdk (temperature self) = Inr cfg \<and>
    generate_content_stream (client self) (model_name self) contents cfg =
      Inr (map Inr cs @ Inl e # rest) \<longrightarrow>
      py_list (generate_text_stream sdk self contents) = Inr (map chunk_text cs)"
    by (simp add: generate_text_stream_def py_list_Created takeWhile_chunks)
  have start: "GenerateContentConfig sdk (temperature self) = Inr cfg \<and>
    generate_content_stream (client self) (model_name self) contents cfg = Inl e \<longrightarrow>
      py_list (generate_text_stream sdk self contents) = Inr []"
    by (simp add: generate_text_stream_def py_list_Created)
  from fin nxt mid start show ?thesis by blast
qed

theorem generate_text_stream_stops_at_failure_witness:
  "generate_content_stream (client example_model) (model_name example_model) ''Hi''
     (GenerateContentConfig_obj (VFloat 0)) =
     Inr (map Inr [Chunk (VStr ''Hel''), Chunk (VStr ''lo'')] @ Inl unavailable #
          [Inr (Chunk (VStr ''!''))]) \<and>
   py_list (generate_text_stream example_sdk example_model ''Hi'') =
     Inr [VStr ''Hel'', VStr ''lo''] \<and>
   generate_content_stream (client example_model) (model_name example_model) []
     (GenerateContentConfig_obj (VFloat 0)) = Inl unavailable \<and>
   py_list (generate_text_stream example_sdk example_model []) = Inr []"
  using generate_text_stream_stops_at_failure
    [of example_sdk example_model "''Hi''" _ _ "GenerateContentConfig_obj (VFloat 0)"
      "[Chunk (VStr ''Hel''), Chunk (VStr ''lo'')]" unavailable "[Inr (Chunk (VStr ''!''))]"]
    generate_text_stream_stops_at_failure
    [of example_sdk example_model "[]" _ _ "GenerateContentConfig_obj (VFloat 0)"
      _ unavailable]
  by (simp add: gemini_eval py_list.simps)

text \<open>
  C10. When the session's history is retrieved and every message has at least one part,
  \<^verbatim>\<open>get_history\<close> returns one role and text pair per message, in order, the text being
  that of the first part of the message; when some message has no part, it returns the
  empty sequence.
\<close>

theorem get_history_first_parts:
  assumes "session_get_history chat = Inr history"
  shows "((\<forall>m \<in> set history. parts m \<noteq> []) \<longrightarrow>
      get_history chat =
        Inr (map (\<lambda>m. [(''role'', role m), (''text'', part_text (hd (parts m)))]) history)) \<and>
    ((\<exists>m \<in> set history. parts m = []) \<longrightarrow> get_history chat = Inr [])"
proof -
  have a: "(\<forall>m \<in> set history. parts m \<noteq> []) \<longrightarrow>
      get_history chat =
        Inr (map (\<lambda>m. [(''role'', role m), (''text'', part_text (hd (parts m)))]) history)"
    using assms by (simp add: get_history_def history_items_all)
  have b: "(\<exists>m \<in> set history. parts m = []) \<longrightarrow> get_history chat = Inr []"
  proof
    assume "\<exists>m \<in> set history. parts m = []"
    then obtain e where "history_items history = Inl e"
      using history_items_some_empty by blast
    then show "get_history chat = Inr []" using assms by (simp add: get_history_def)
  qed
  from a b show ?thesis by blast
qed

theorem get_history_first_parts_witness:
  "list_all (\<lambda>m. parts m \<noteq> [])
     [Message (VStr ''user'') [Part (VStr ''hi''), Part (VStr ''there'')],
      Message (VStr ''model'') [Part (VStr ''hello'')]] \<and>
   get_history example_chat =
     Inr [[(''role'', VStr ''user''), (''text'', VStr ''hi'')],
          [(''role'', VStr ''model''), (''text'', VStr ''hello'')]] \<and>
   (\<exists>m \<in> set [Message (VStr ''user'') [Part (VStr ''hi'')], Message (VStr ''model'') []].
      parts m = []) \<and>
   get_history partless_chat = Inr []"
  using get_history_first_parts
    [of example_chat "[Message (VStr ''user'') [Part (VStr ''hi''), Part (VStr ''there'')],
                 Message (VStr ''model'') [Part (VStr ''hello'')]]"]
    get_history_first_parts
    [of partless_chat "[Message (VStr ''user'') [Part (VStr ''hi'')], Message (VStr ''model'') []]"]
  by (simp add: gemini_eval py_list.simps)

end
